theory Spec2Isabelle
  imports Complex_Main "HOL-Library.Multiset"
begin

section \<open>Flow aggregation and signal derivation\<close>

text \<open>
  A shallow embedding of the signal engine of \<^verbatim>\<open>single_security.py\<close> and
  \<^verbatim>\<open>multi_security.py\<close>. Flow values are modelled in exact arithmetic: the
  classifiers, the percentile and the rolling means work on \<^typ>\<open>real\<close>; the
  dictionary code is polymorphic in the value type and uses only the operations
  the source applies to it, so its results do not depend on laws of arithmetic
  unless a theorem says so.
\<close>


subsection \<open>Strings\<close>

text \<open>
  Ticker keys are ASCII strings. \<^verbatim>\<open>str.upper\<close> is modelled on the ASCII letters
  and leaves every other character unchanged.
\<close>

definition upper_char :: "char \<Rightarrow> char" where
  "upper_char c =
     (case map_of (zip ''abcdefghijklmnopqrstuvwxyz'' ''ABCDEFGHIJKLMNOPQRSTUVWXYZ'') c of
        None \<Rightarrow> c | Some u \<Rightarrow> u)"

definition upper :: "string \<Rightarrow> string" where
  "upper s = map upper_char s"

text \<open>\<^verbatim>\<open>s.startswith(p)\<close>, \<^verbatim>\<open>s.endswith(p)\<close> and \<^verbatim>\<open>p in s\<close> on strings.\<close>

fun startswith :: "string \<Rightarrow> string \<Rightarrow> bool" where
  "startswith s [] = True"
| "startswith [] (p # ps) = False"
| "startswith (c # cs) (p # ps) = (c = p \<and> startswith cs ps)"

definition endswith :: "string \<Rightarrow> string \<Rightarrow> bool" where
  "endswith s p = startswith (rev s) (rev p)"

fun str_in :: "string \<Rightarrow> string \<Rightarrow> bool" where
  "str_in p [] = (p = [])"
| "str_in p (c # cs) = (startswith (c # cs) p \<or> str_in p cs)"

text \<open>\<^verbatim>\<open>s.split(sep)\<close> for a one-character separator: never an empty list.\<close>

fun split :: "char \<Rightarrow> string \<Rightarrow> string list" where
  "split sep [] = [[]]"
| "split sep (c # cs) =
     (if c = sep then [] # split sep cs
      else (c # hd (split sep cs)) # tl (split sep cs))"

text \<open>
  \<^verbatim>\<open>ticker_key.split('_')[-1] if '_' in ticker_key else ticker_key\<close>
\<close>

definition base_ticker :: "string \<Rightarrow> string" where
  "base_ticker ticker_key =
     (if CHR ''_'' \<in> set ticker_key then last (split CHR ''_'' ticker_key) else ticker_key)"

subsection \<open>Ticker matching, one rule per extraction path\<close>

text \<open>
  The condition that compares a raw key with the target ticker is written
  inline at each place a ticker's series is extracted. Six conditions occur in
  the two analyzers. The remaining loops over raw keys
  (\<^verbatim>\<open>analyze_retail_comparison\<close>, \<^verbatim>\<open>generate_report_html\<close>, \<^verbatim>\<open>analyze_stock_flow\<close>,
  \<^verbatim>\<open>analyze_options_flow\<close>, \<^verbatim>\<open>fetch_combined_options_data\<close>) compare no key with a
  target: they label every record with its own key or base ticker.

  Retail, \<^verbatim>\<open>multi_security.py\<close>, \<^verbatim>\<open>calculate_combined_flow_multi\<close> (line 180):
  \<^verbatim>\<open>ticker_key.upper() == target_upper\<close>.
\<close>

definition retail_match_multi :: "string \<Rightarrow> string \<Rightarrow> bool" where
  "retail_match_multi ticker_key target_ticker = (upper ticker_key = upper target_ticker)"

text \<open>
  Retail, \<^verbatim>\<open>single_security.py\<close>, \<^verbatim>\<open>display_combined_flow_chart\<close> (line 175),
  \<^verbatim>\<open>display_ma_ratio_retail_chart\<close> (line 421) and
  \<^verbatim>\<open>display_ma_ratio_combined_chart\<close> (line 729):
  \<^verbatim>\<open>ticker.upper() == ticker_key.upper() or ticker.upper() in ticker_key.upper()\<close>.
\<close>

definition retail_match_single :: "string \<Rightarrow> string \<Rightarrow> bool" where
  "retail_match_single ticker_key ticker =
     (upper ticker = upper ticker_key \<or> str_in (upper ticker) (upper ticker_key))"

text \<open>
  Retail, \<^verbatim>\<open>single_security.py\<close>, \<^verbatim>\<open>create_z_score_comparison_chart\<close> (line 1338):
  \<^verbatim>\<open>ticker_key.upper() == ticker.upper()\<close>.
\<close>

definition retail_match_z_score_comparison :: "string \<Rightarrow> string \<Rightarrow> bool" where
  "retail_match_z_score_comparison ticker_key ticker = (upper ticker_key = upper ticker)"

text \<open>
  Options, \<^verbatim>\<open>multi_security.py\<close>, \<^verbatim>\<open>calculate_combined_flow_multi\<close> (lines 194-234)
  and \<^verbatim>\<open>calculate_net_premium_multi\<close> (lines 1084-1104): the last underscore
  segment, the whole key, the key ending in \<^verbatim>\<open>_TARGET\<close> or the key starting with
  \<^verbatim>\<open>TARGET_\<close>.
\<close>

definition options_match_multi :: "string \<Rightarrow> string \<Rightarrow> bool" where
  "options_match_multi ticker_key target_ticker =
     (let target_upper = upper target_ticker in
        upper (base_ticker ticker_key) = target_upper
        \<or> upper ticker_key = target_upper
        \<or> endswith (upper ticker_key) (''_'' @ target_upper)
        \<or> startswith (upper ticker_key) (target_upper @ ''_''))"

text \<open>
  Options, \<^verbatim>\<open>single_security.py\<close>, \<^verbatim>\<open>display_combined_flow_chart\<close> (lines 187-213),
  \<^verbatim>\<open>display_ma_ratio_options_chart\<close> (lines 599-607) and
  \<^verbatim>\<open>display_ma_ratio_combined_chart\<close> (lines 741-767): the last underscore
  segment only, \<^verbatim>\<open>base_ticker.upper() == target_upper\<close>.
\<close>

definition options_match_single :: "string \<Rightarrow> string \<Rightarrow> bool" where
  "options_match_single ticker_key ticker = (upper (base_ticker ticker_key) = upper ticker)"

text \<open>
  Options, \<^verbatim>\<open>single_security.py\<close>, \<^verbatim>\<open>create_z_score_comparison_chart\<close> (line 1349):
  \<^verbatim>\<open>ticker.upper() in ticker_key.upper()\<close>.
\<close>

definition options_match_z_score_comparison :: "string \<Rightarrow> string \<Rightarrow> bool" where
  "options_match_z_score_comparison ticker_key ticker = str_in (upper ticker) (upper ticker_key)"

subsection \<open>Dictionaries\<close>

text \<open>
  A Python dictionary is an association list in insertion order with distinct
  keys. \<^verbatim>\<open>d.get(k, default)\<close> reads it, \<^verbatim>\<open>d[k] = v\<close> overwrites in place or appends.
\<close>

type_synonym ('k, 'v) dict = "('k \<times> 'v) list"

definition keys :: "('k, 'v) dict \<Rightarrow> 'k list" where
  "keys d = map fst d"

definition dict_get :: "('k, 'v) dict \<Rightarrow> 'k \<Rightarrow> 'v \<Rightarrow> 'v" where
  "dict_get d k dflt = (case map_of d k of None \<Rightarrow> dflt | Some v \<Rightarrow> v)"

fun dict_set :: "('k, 'v) dict \<Rightarrow> 'k \<Rightarrow> 'v \<Rightarrow> ('k, 'v) dict" where
  "dict_set [] k v = [(k, v)]"
| "dict_set ((k', v') # d) k v = (if k' = k then (k, v) # d else (k', v') # dict_set d k v)"

text \<open>
  The value stored under a ticker key of a fetched mapping is tested with
  \<^verbatim>\<open>isinstance(date_values, dict)\<close>: it is a date-to-value dictionary or something
  else.
\<close>

datatype 'v payload = Date_Values "(string, 'v) dict" | Not_Dict

type_synonym 'v named_series = "(string, 'v payload) dict"

text \<open>
  The accumulation step, written in the source either as
  \<^verbatim>\<open>acc[date_str] = acc.get(date_str, 0) + value\<close> or as
  \<^verbatim>\<open>if date_str not in acc: acc[date_str] = 0\<close> followed by
  \<^verbatim>\<open>acc[date_str] += value\<close>: both store \<^verbatim>\<open>0 + value\<close> for a new date and
  \<^verbatim>\<open>old + value\<close> otherwise.
\<close>

definition add_value :: "string \<times> 'v \<Rightarrow> (string, 'v) dict \<Rightarrow> (string, 'v::{zero,plus}) dict" where
  "add_value dv acc = dict_set acc (fst dv) (dict_get acc (fst dv) 0 + snd dv)"

definition add_values :: "(string, 'v) dict \<Rightarrow> (string, 'v) dict \<Rightarrow> (string, 'v::{zero,plus}) dict" where
  "add_values date_values acc = fold add_value date_values acc"

text \<open>
  The loop over \<^verbatim>\<open>data.items()\<close> that sums, per date, the values of every key
  matching the target ticker; \<open>matches\<close> is the inline condition of the path.
\<close>

definition aggregate_step ::
  "(string \<Rightarrow> bool) \<Rightarrow> string \<times> 'v payload \<Rightarrow> (string, 'v) dict \<Rightarrow> (string, 'v::{zero,plus}) dict" where
  "aggregate_step matches item acc =
     (case snd item of
        Date_Values date_values \<Rightarrow> if matches (fst item) then add_values date_values acc else acc
      | Not_Dict \<Rightarrow> acc)"

definition aggregate :: "(string \<Rightarrow> bool) \<Rightarrow> 'v named_series \<Rightarrow> (string, 'v::{zero,plus}) dict" where
  "aggregate matches data = fold (aggregate_step matches) data []"

text \<open>
  The retail loop takes the dictionary of the first matching key whose value is
  a dictionary and stops (\<^verbatim>\<open>break\<close>); without one the records stay empty.
\<close>

fun first_match :: "(string \<Rightarrow> bool) \<Rightarrow> 'v named_series \<Rightarrow> (string, 'v) dict" where
  "first_match matches [] = []"
| "first_match matches ((ticker_key, Date_Values date_values) # rest) =
     (if matches ticker_key then date_values else first_match matches rest)"
| "first_match matches ((ticker_key, Not_Dict) # rest) = first_match matches rest"

text \<open>
  \<^verbatim>\<open>set(a.keys()) | set(b.keys()) | ...\<close>: a Python set has no specified iteration
  order. The model enumerates the distinct dates in one fixed order; the
  theorems below speak of the records as a set or multiset only.
\<close>

definition all_dates :: "string list list \<Rightarrow> string list" where
  "all_dates key_lists = remdups (concat key_lists)"


subsection \<open>Combined flow\<close>

text \<open>
  Output records are dictionaries with fixed keys. \<^verbatim>\<open>pd.to_datetime(date_str)\<close>
  parses the ISO date string of the source mapping; the model keeps the string.
  The field \<^verbatim>\<open>'value'\<close> is named \<open>val\<close>.
\<close>

record dated =
  date :: string

record 'v flow_record = dated +
  ticker :: string
  val :: 'v

record 'v net_record = "'v flow_record" +
  call_value :: 'v
  put_value :: 'v

text \<open>
  \<^verbatim>\<open>calculate_combined_flow_multi\<close>: the per-ticker mappings built at the top of
  the loop body, then one record per date of their union.
\<close>

definition retail_records_multi :: "'v named_series \<Rightarrow> string \<Rightarrow> (string, 'v) dict" where
  "retail_records_multi retail_flow target_ticker =
     first_match (\<lambda>ticker_key. retail_match_multi ticker_key target_ticker) retail_flow"

definition options_records_multi :: "'v named_series \<Rightarrow> string \<Rightarrow> (string, 'v::{zero,plus}) dict" where
  "options_records_multi data target_ticker =
     aggregate (\<lambda>ticker_key. options_match_multi ticker_key target_ticker) data"

definition combined_flow_multi_ticker ::
  "'v named_series \<Rightarrow> 'v named_series \<Rightarrow> 'v named_series \<Rightarrow> 'v named_series \<Rightarrow> 'v named_series
     \<Rightarrow> string \<Rightarrow> ('v::{zero,plus,minus}) flow_record list" where
  "combined_flow_multi_ticker retail_flow small_call small_put large_call large_put target_ticker =
     (let retail_records = retail_records_multi retail_flow target_ticker;
          small_call_records = options_records_multi small_call target_ticker;
          small_put_records = options_records_multi small_put target_ticker;
          large_call_records = options_records_multi large_call target_ticker;
          large_put_records = options_records_multi large_put target_ticker
      in map (\<lambda>date_str.
             let retail_val = dict_get retail_records date_str 0;
                 small_net = dict_get small_call_records date_str 0
                             - dict_get small_put_records date_str 0;
                 large_net = dict_get large_call_records date_str 0
                             - dict_get large_put_records date_str 0;
                 combined_flow = retail_val + small_net + large_net
             in \<lparr>date = date_str, ticker = target_ticker, val = combined_flow\<rparr>)
           (all_dates [keys retail_records, keys small_call_records, keys small_put_records,
                       keys large_call_records, keys large_put_records]))"

definition calculate_combined_flow_multi ::
  "'v named_series \<Rightarrow> 'v named_series \<Rightarrow> 'v named_series \<Rightarrow> 'v named_series \<Rightarrow> 'v named_series
     \<Rightarrow> string list \<Rightarrow> ('v::{zero,plus,minus}) flow_record list" where
  "calculate_combined_flow_multi retail_flow small_call small_put large_call large_put ticker_list =
     concat (map (combined_flow_multi_ticker retail_flow small_call small_put large_call large_put)
                 ticker_list)"

text \<open>
  \<^verbatim>\<open>display_combined_flow_chart\<close> (single security) up to the list \<^verbatim>\<open>records\<close>; the
  chart drawn from it is not modelled.
\<close>

record 'v combined_chart_record = dated +
  combined_flow :: 'v
  retail_flow :: 'v
  small_net :: 'v
  large_net :: 'v

definition retail_records_single :: "'v named_series \<Rightarrow> string \<Rightarrow> (string, 'v) dict" where
  "retail_records_single retail_flow' ticker' =
     first_match (\<lambda>ticker_key. retail_match_single ticker_key ticker') retail_flow'"

definition options_records_single :: "'v named_series \<Rightarrow> string \<Rightarrow> (string, 'v::{zero,plus}) dict" where
  "options_records_single data ticker' =
     aggregate (\<lambda>ticker_key. options_match_single ticker_key ticker') data"

definition display_combined_flow_chart ::
  "'v named_series \<Rightarrow> 'v named_series \<Rightarrow> 'v named_series \<Rightarrow> 'v named_series \<Rightarrow> 'v named_series
     \<Rightarrow> string \<Rightarrow> ('v::{zero,plus,minus}) combined_chart_record list" where
  "display_combined_flow_chart retail_flow' small_call small_put large_call large_put ticker' =
     (let retail_records = retail_records_single retail_flow' ticker';
          small_call_records = options_records_single small_call ticker';
          small_put_records = options_records_single small_put ticker';
          large_call_records = options_records_single large_call ticker';
          large_put_records = options_records_single large_put ticker'
      in map (\<lambda>date_str.
             let retail_val = dict_get retail_records date_str 0;
                 small_net' = dict_get small_call_records date_str 0
                              - dict_get small_put_records date_str 0;
                 large_net' = dict_get large_call_records date_str 0
                              - dict_get large_put_records date_str 0;
                 combined_flow' = retail_val + small_net' + large_net'
             in \<lparr>date = date_str, combined_flow = combined_flow', retail_flow = retail_val,
                 small_net = small_net', large_net = large_net'\<rparr>)
           (all_dates [keys retail_records, keys small_call_records, keys small_put_records,
                       keys large_call_records, keys large_put_records]))"

subsection \<open>Net premium\<close>

text \<open>
  \<^verbatim>\<open>calculate_net_premium_multi\<close>: per ticker, the call and put mappings, the
  union of their dates and one record per date with \<^verbatim>\<open>call_value - put_value\<close>.
\<close>

definition net_premium_union ::
  "string \<Rightarrow> (string, 'v) dict \<Rightarrow> (string, 'v) dict \<Rightarrow> ('v::{zero,minus}) net_record list" where
  "net_premium_union target_ticker ticker_call_data ticker_put_data =
     map (\<lambda>date_str.
            let call_value' = dict_get ticker_call_data date_str 0;
                put_value' = dict_get ticker_put_data date_str 0;
                net_premium' = call_value' - put_value'
            in \<lparr>date = date_str, ticker = target_ticker, val = net_premium',
                call_value = call_value', put_value = put_value'\<rparr>)
         (all_dates [keys ticker_call_data, keys ticker_put_data])"

definition calculate_net_premium_multi ::
  "'v named_series \<Rightarrow> 'v named_series \<Rightarrow> string list \<Rightarrow> ('v::{zero,plus,minus}) net_record list" where
  "calculate_net_premium_multi call_data put_data ticker_list =
     concat (map (\<lambda>target_ticker.
                    net_premium_union target_ticker
                      (options_records_multi call_data target_ticker)
                      (options_records_multi put_data target_ticker))
                 ticker_list)"

text \<open>
  \<^verbatim>\<open>display_ma_ratio_options_chart\<close> (single security) up to the list \<^verbatim>\<open>records\<close>.
\<close>

record 'v premium_record = dated +
  net_premium :: 'v

definition ma_ratio_options_records ::
  "'v named_series \<Rightarrow> 'v named_series \<Rightarrow> string \<Rightarrow> ('v::{zero,plus,minus}) premium_record list" where
  "ma_ratio_options_records call_data put_data ticker' =
     (let ticker_call_data = options_records_single call_data ticker';
          ticker_put_data = options_records_single put_data ticker'
      in map (\<lambda>date_str.
             let call_value' = dict_get ticker_call_data date_str 0;
                 put_value' = dict_get ticker_put_data date_str 0
             in \<lparr>date = date_str, net_premium = call_value' - put_value'\<rparr>)
           (all_dates [keys ticker_call_data, keys ticker_put_data]))"

text \<open>
  \<^verbatim>\<open>calculate_net_premium(df, ticker)\<close> (single security) works on a frame of
  rows with the columns date, ticker, value and type; the key \<^verbatim>\<open>'type'\<close> is
  named \<open>type'\<close>. \<^verbatim>\<open>.sum()\<close> of an empty selection is 0.
\<close>

record 'v typed_record = "'v flow_record" +
  type' :: string

definition calculate_net_premium ::
  "('v::{monoid_add,minus}) typed_record list \<Rightarrow> string \<Rightarrow> 'v typed_record list" where
  "calculate_net_premium df ticker' =
     (let ticker_data = filter (\<lambda>row. ticker row = ticker') df;
          call_data = filter (\<lambda>row. type' row = ''Call'') ticker_data;
          put_data = filter (\<lambda>row. type' row = ''Put'') ticker_data
      in map (\<lambda>date_str.
             let call_value' = sum_list (map val (filter (\<lambda>row. date row = date_str) call_data));
                 put_value' = sum_list (map val (filter (\<lambda>row. date row = date_str) put_data));
                 net_premium' = call_value' - put_value'
             in \<lparr>date = date_str, ticker = ticker', val = net_premium', type' = ''Net_Premium''\<rparr>)
           (all_dates [map date call_data, map date put_data]))"

text \<open>
  Exchanging the call and the put rows of such a frame.
\<close>

definition swap_call_put :: "'v typed_record \<Rightarrow> 'v typed_record" where
  "swap_call_put row =
     row\<lparr>type' := (if type' row = ''Call'' then ''Put''
                     else if type' row = ''Put'' then ''Call'' else type' row)\<rparr>"

subsection \<open>Activity classification\<close>

text \<open>
  \<^verbatim>\<open>classify_activity_level\<close> returns a label and an emoji. The emoji is a single
  non-ASCII character in the source and is modelled by a constructor.
\<close>

datatype emoji = Red_Circle | Yellow_Circle | Green_Circle | Orange_Circle | Fire

definition classify_activity_level :: "real \<Rightarrow> string \<times> emoji" where
  "classify_activity_level z_score =
     (if z_score < - 1.5 then (''Extreme Light'', Red_Circle)
      else if - 1.5 \<le> z_score \<and> z_score < - 0.5 then (''Light'', Yellow_Circle)
      else if - 0.5 \<le> z_score \<and> z_score < 0.5 then (''Neutral'', Green_Circle)
      else if 0.5 \<le> z_score \<and> z_score < 1.5 then (''Elevated'', Orange_Circle)
      else (''Crowded'', Fire))"

subsection \<open>Momentum classification\<close>

text \<open>
  The momentum band is computed inline, by the same comparisons, in
  \<^verbatim>\<open>display_ma_ratio_metrics\<close> (single security; a label and a colour) and in
  \<^verbatim>\<open>display_statistics\<close> and \<^verbatim>\<open>generate_flow_table_html\<close> (multi security; the
  shorter labels).
\<close>

definition ma_ratio_signal :: "real \<Rightarrow> string \<times> string" where
  "ma_ratio_signal latest_ratio =
     (if latest_ratio > 1.5 then (''Strong Uptrend'', ''#28a745'')
      else if latest_ratio \<ge> 1.0 then (''Uptrend'', ''#28a745'')
      else if latest_ratio \<ge> 0.5 then (''Downtrend'', ''#dc3545'')
      else (''Strong Downtrend'', ''#dc3545''))"

definition ma_signal :: "real \<Rightarrow> string" where
  "ma_signal latest_ma_ratio =
     (if latest_ma_ratio > 1.5 then ''Strong Up''
      else if latest_ma_ratio \<ge> 1.0 then ''Uptrend''
      else if latest_ma_ratio \<ge> 0.5 then ''Downtrend''
      else ''Strong Down'')"


subsection \<open>Rolling means and the MA ratio\<close>


text \<open>
  \<^verbatim>\<open>series.rolling(window=w, min_periods=1)\<close>: at index \<open>i\<close> the window holds the
  values at the indices \<open>i - w + 1, ..., i\<close> that exist. The mean of an empty
  window is NaN, here \<open>None\<close>.
\<close>

definition window :: "nat \<Rightarrow> real list \<Rightarrow> nat \<Rightarrow> real list" where
  "window w xs i = drop (Suc i - w) (take (Suc i) xs)"







text \<open>
  \<^verbatim>\<open>(np.sum(values <= latest) / len(values)) * 100\<close>. Both call sites evaluate it
  on a non-empty series only.
\<close>

definition percentile :: "real list \<Rightarrow> real \<Rightarrow> real" where
  "percentile values latest =
     (real (length (filter (\<lambda>v. v \<le> latest) values)) / real (length values)) * 100"

subsection \<open>Fetching retail flow\<close>

text \<open>
  One HTTP request either raises (connection error, timeout) or returns a
  status code and a body; \<^verbatim>\<open>response.json()\<close> raises on a body that is not JSON.
  Every exception inside the \<^verbatim>\<open>try\<close> is swallowed by the bare \<^verbatim>\<open>except\<close>. The
  outcome of a request may depend on its position in the run, on the ticker and
  on the \<^verbatim>\<open>type\<close> parameter. The pauses between requests are not modelled.
\<close>

datatype 'v body = Invalid_Json | Json "'v named_series"

datatype 'v http_outcome = Request_Raises | Response nat "'v body"

type_synonym 'v http = "nat \<Rightarrow> string \<Rightarrow> string option \<Rightarrow> 'v http_outcome"

text \<open>\<^verbatim>\<open>acc.update(data)\<close>\<close>

definition dict_update :: "('k, 'v) dict \<Rightarrow> ('k, 'v) dict \<Rightarrow> ('k, 'v) dict" where
  "dict_update acc data = fold (\<lambda>(k, v) d. dict_set d k v) data acc"

text \<open>
  The body of one \<^verbatim>\<open>try\<close> block: on status 200 with a non-empty JSON mapping the
  accumulator is updated, in every other case it is left as it was.
\<close>

fun try_update :: "'v http_outcome \<Rightarrow> 'v named_series \<Rightarrow> 'v named_series" where
  "try_update Request_Raises acc = acc"
| "try_update (Response status_code Invalid_Json) acc = acc"
| "try_update (Response status_code (Json data)) acc =
     (if status_code = 200 then (if data \<noteq> [] then dict_update acc data else acc) else acc)"

text \<open>\<^verbatim>\<open>if not self.vandatrack_token\<close>: the token is \<^verbatim>\<open>None\<close> or a string.\<close>

fun falsy :: "string option \<Rightarrow> bool" where
  "falsy None = True"
| "falsy (Some s) = (s = [])"

text \<open>
  \<^verbatim>\<open>fetch_stock_flow_data\<close> of \<^verbatim>\<open>multi_security.py\<close>: one request per ticker.
  \<open>n\<close> counts the requests made so far.
\<close>

fun fetch_combined_multi ::
  "'v http \<Rightarrow> nat \<Rightarrow> string list \<Rightarrow> 'v named_series \<Rightarrow> 'v named_series" where
  "fetch_combined_multi http n [] combined_data = combined_data"
| "fetch_combined_multi http n (ticker' # tickers) combined_data =
     fetch_combined_multi http (Suc n) tickers (try_update (http n ticker' None) combined_data)"

definition fetch_stock_flow_data_multi ::
  "string option \<Rightarrow> 'v http \<Rightarrow> string list \<Rightarrow> string
     \<Rightarrow> (string, 'v named_series) dict \<times> string" where
  "fetch_stock_flow_data_multi vandatrack_token http tickers transaction_type =
     (if falsy vandatrack_token then ([], ''No token provided'')
      else if transaction_type = ''combined'' then
        ([(''combined_data'', fetch_combined_multi http 0 tickers [])], ''success'')
      else ([], ''Not implemented''))"

text \<open>
  \<^verbatim>\<open>fetch_stock_flow_data\<close> of \<^verbatim>\<open>single_security.py\<close>: for
  \<^verbatim>\<open>transaction_type == 'combined'\<close> three requests per ticker (no type, buy,
  sell), otherwise one request per ticker with the type given. The result is
  either the three named mappings or the bare mapping.
\<close>

datatype 'v flow_data = Named "(string, 'v named_series) dict" | Bare "'v named_series"

fun fetch_combined_single ::
  "'v http \<Rightarrow> nat \<Rightarrow> string list
     \<Rightarrow> 'v named_series \<times> 'v named_series \<times> 'v named_series
     \<Rightarrow> 'v named_series \<times> 'v named_series \<times> 'v named_series" where
  "fetch_combined_single http n [] acc = acc"
| "fetch_combined_single http n (ticker' # ticker_list) (combined_data, buy_data, sell_data) =
     fetch_combined_single http (n + 3) ticker_list
       (try_update (http n ticker' None) combined_data,
        try_update (http (n + 1) ticker' (Some ''buy'')) buy_data,
        try_update (http (n + 2) ticker' (Some ''sell'')) sell_data)"

fun fetch_typed_single ::
  "'v http \<Rightarrow> string \<Rightarrow> nat \<Rightarrow> string list \<Rightarrow> 'v named_series \<Rightarrow> 'v named_series" where
  "fetch_typed_single http transaction_type n [] all_data = all_data"
| "fetch_typed_single http transaction_type n (ticker' # ticker_list) all_data =
     fetch_typed_single http transaction_type (Suc n) ticker_list
       (try_update (http n ticker' (Some transaction_type)) all_data)"

definition fetch_stock_flow_data_single ::
  "string option \<Rightarrow> 'v http \<Rightarrow> string list \<Rightarrow> string \<Rightarrow> 'v flow_data \<times> string" where
  "fetch_stock_flow_data_single vandatrack_token http ticker_list transaction_type =
     (if falsy vandatrack_token then (Bare [], ''No token provided'')
      else if transaction_type = ''combined'' then
        (case fetch_combined_single http 0 ticker_list ([], [], []) of
           (combined_data, buy_data, sell_data) \<Rightarrow>
             (Named [(''combined_data'', combined_data), (''buy_data'', buy_data),
                     (''sell_data'', sell_data)], ''success''))
      else (Bare (fetch_typed_single http transaction_type 0 ticker_list []), ''success''))"

text \<open>
  The outcomes that leave the accumulator unchanged: the request raised, the body
  was not JSON, the status was not 200, or the mapping was empty.
\<close>

fun delivers_nothing :: "'v http_outcome \<Rightarrow> bool" where
  "delivers_nothing Request_Raises = True"
| "delivers_nothing (Response status_code Invalid_Json) = True"
| "delivers_nothing (Response status_code (Json data)) = (status_code \<noteq> 200 \<or> data = [])"

section \<open>Properties of the strings and dictionaries\<close>

lemma startswith_append: "startswith (p @ s) p"
  by (induction p) auto

lemma startswith_iff: "startswith s p \<longleftrightarrow> (\<exists>b. s = p @ b)"
  by (induction s p rule: startswith.induct) auto

lemma str_in_iff: "str_in p s \<longleftrightarrow> (\<exists>a b. s = a @ p @ b)"
proof (induction s)
  case Nil
  then show ?case by auto
next
  case (Cons c cs)
  show ?case
  proof
    assume "str_in p (c # cs)"
    then consider "startswith (c # cs) p" | "str_in p cs" by auto
    then show "\<exists>a b. c # cs = a @ p @ b"
    proof cases
      case 1
      then obtain b where "c # cs = p @ b" by (auto simp: startswith_iff)
      then have "c # cs = [] @ p @ b" by simp
      then show ?thesis by blast
    next
      case 2
      then obtain a b where "cs = a @ p @ b" using Cons.IH by auto
      then have "c # cs = (c # a) @ p @ b" by simp
      then show ?thesis by blast
    qed
  next
    assume "\<exists>a b. c # cs = a @ p @ b"
    then obtain a b where ab: "c # cs = a @ p @ b" by auto
    show "str_in p (c # cs)"
    proof (cases a)
      case Nil
      with ab have "startswith (c # cs) p" by (auto simp: startswith_iff)
      then show ?thesis by simp
    next
      case (Cons x a')
      with ab have "cs = a' @ p @ b" by simp
      then have "str_in p cs" using Cons.IH by blast
      then show ?thesis by simp
    qed
  qed
qed

lemma split_not_Nil: "split c s \<noteq> []"
  by (induction s) auto

lemma split_no_sep: "c \<notin> set s \<Longrightarrow> split c s = [s]"
  by (induction s) auto

lemma split_append: "split c (p @ c # s) = split c p @ split c s"
proof (induction p)
  case Nil
  show ?case by simp
next
  case (Cons x p)
  have ne: "split c p \<noteq> []" by (rule split_not_Nil)
  show ?case
  proof (cases "x = c")
    case True
    then show ?thesis using Cons.IH by simp
  next
    case False
    then show ?thesis using Cons.IH ne by simp
  qed
qed

lemma last_split_append: "c \<notin> set s \<Longrightarrow> last (split c (p @ c # s)) = s"
  by (simp add: split_append split_not_Nil split_no_sep)

lemma base_ticker_suffix:
  "CHR ''_'' \<notin> set s \<Longrightarrow> base_ticker (p @ ''_'' @ s) = s"
  by (simp add: base_ticker_def last_split_append)

lemma upper_append: "upper (a @ b) = upper a @ upper b"
  by (simp add: upper_def)

lemma map_of_dict_set: "map_of (dict_set d k v) = (map_of d)(k \<mapsto> v)"
  by (induction d) auto

lemma keys_dict_set:
  "keys (dict_set d k v) = (if k \<in> set (keys d) then keys d else keys d @ [k])"
  by (induction d) (force simp: keys_def)+

lemma keys_Nil: "keys [] = []"
  by (simp add: keys_def)

lemma set_keys_dict_set: "set (keys (dict_set d k v)) = insert k (set (keys d))"
  by (auto simp: keys_dict_set)

lemma distinct_keys_dict_set: "distinct (keys d) \<Longrightarrow> distinct (keys (dict_set d k v))"
  by (simp add: keys_dict_set)

lemma set_keys_add_values: "set (keys (add_values dv acc)) = set (keys acc) \<union> set (keys dv)"
proof (induction dv arbitrary: acc)
  case Nil
  then show ?case by (simp add: add_values_def keys_def)
next
  case (Cons x dv)
  have "add_values (x # dv) acc = add_values dv (add_value x acc)"
    by (simp add: add_values_def)
  moreover have "set (keys (add_value x acc)) = insert (fst x) (set (keys acc))"
    by (simp add: add_value_def set_keys_dict_set)
  moreover have "set (keys (x # dv)) = insert (fst x) (set (keys dv))"
    by (simp add: keys_def)
  ultimately show ?case using Cons.IH [of "add_value x acc"] by auto
qed

lemma distinct_keys_add_values: "distinct (keys acc) \<Longrightarrow> distinct (keys (add_values dv acc))"
  unfolding add_values_def
  by (induction dv arbitrary: acc) (auto simp: add_value_def distinct_keys_dict_set)

lemma set_all_dates: "set (all_dates ks) = \<Union> (set ` set ks)"
  by (simp add: all_dates_def)

lemma distinct_all_dates: "distinct (all_dates ks)"
  by (simp add: all_dates_def)

lemma fold_aggregate_keys:
  "set (keys (fold (aggregate_step P) data acc)) =
     set (keys acc) \<union> {d. \<exists>k dv. (k, Date_Values dv) \<in> set data \<and> P k \<and> d \<in> set (keys dv)}"
proof (induction data arbitrary: acc)
  case Nil
  then show ?case by simp
next
  case (Cons item data)
  obtain k pv where item: "item = (k, pv)" by (cases item)
  show ?case
  proof (cases pv)
    case (Date_Values dv)
    then show ?thesis
      using Cons.IH [of "aggregate_step P item acc"] item
      by (auto simp: aggregate_step_def set_keys_add_values)
  next
    case Not_Dict
    then show ?thesis
      using Cons.IH [of acc] item by (auto simp: aggregate_step_def)
  qed
qed

lemma set_keys_aggregate:
  "set (keys (aggregate P data)) =
     {d. \<exists>k dv. (k, Date_Values dv) \<in> set data \<and> P k \<and> d \<in> set (keys dv)}"
  by (simp add: aggregate_def fold_aggregate_keys keys_Nil)

lemma distinct_keys_aggregate_fold:
  "distinct (keys acc) \<Longrightarrow> distinct (keys (fold (aggregate_step P) data acc))"
  by (induction data arbitrary: acc)
     (auto simp: aggregate_step_def distinct_keys_add_values split: payload.splits)

lemma distinct_keys_aggregate: "distinct (keys (aggregate P data))"
  by (simp add: aggregate_def distinct_keys_aggregate_fold keys_Nil)

lemma set_combined_flow_multi_ticker:
  "set (combined_flow_multi_ticker rf sc sp lc lp t) =
    {\<lparr>date = d, ticker = t,
       val = dict_get (retail_records_multi rf t) d 0
             + (dict_get (options_records_multi sc t) d 0 - dict_get (options_records_multi sp t) d 0)
             + (dict_get (options_records_multi lc t) d 0 - dict_get (options_records_multi lp t) d 0)\<rparr>
     | d. d \<in> set (keys (retail_records_multi rf t))
            \<union> set (keys (options_records_multi sc t)) \<union> set (keys (options_records_multi sp t))
            \<union> set (keys (options_records_multi lc t)) \<union> set (keys (options_records_multi lp t))}"
  by (auto simp: combined_flow_multi_ticker_def Let_def set_all_dates)


lemma set_display_combined_flow_chart:
  "set (display_combined_flow_chart rf sc sp lc lp t) =
    {\<lparr>date = d,
       combined_flow = dict_get (retail_records_single rf t) d 0
             + (dict_get (options_records_single sc t) d 0 - dict_get (options_records_single sp t) d 0)
             + (dict_get (options_records_single lc t) d 0 - dict_get (options_records_single lp t) d 0),
       retail_flow = dict_get (retail_records_single rf t) d 0,
       small_net = dict_get (options_records_single sc t) d 0 - dict_get (options_records_single sp t) d 0,
       large_net = dict_get (options_records_single lc t) d 0 - dict_get (options_records_single lp t) d 0\<rparr>
     | d. d \<in> set (keys (retail_records_single rf t))
            \<union> set (keys (options_records_single sc t)) \<union> set (keys (options_records_single sp t))
            \<union> set (keys (options_records_single lc t)) \<union> set (keys (options_records_single lp t))}"
  by (auto simp: display_combined_flow_chart_def Let_def set_all_dates)

lemma date_net_premium_union:
  "map date (net_premium_union t A B) = all_dates [keys A, keys B]"
  by (simp add: net_premium_union_def Let_def comp_def)

lemma mset_all_dates_swap: "mset (all_dates [a, b]) = mset (all_dates [b, a])"
proof -
  have "set (concat [a, b]) = set (concat [b, a])" by auto
  then show ?thesis
    unfolding all_dates_def by (simp only: set_eq_iff_mset_remdups_eq)
qed

lemma net_premium_union_swap:
  fixes A B :: "(string, 'v::group_add) dict"
  shows "mset (map (\<lambda>r. r\<lparr>val := - val r, call_value := put_value r, put_value := call_value r\<rparr>)
                 (net_premium_union t A B))
         = mset (net_premium_union t B A)"
proof -
  let ?f = "\<lambda>d. \<lparr>date = d, ticker = t, val = dict_get B d 0 - dict_get A d 0,
                  call_value = dict_get B d 0, put_value = dict_get A d 0\<rparr>"
  have "map (\<lambda>r. r\<lparr>val := - val r, call_value := put_value r, put_value := call_value r\<rparr>)
            (net_premium_union t A B) = map ?f (all_dates [keys A, keys B])"
    by (simp add: net_premium_union_def Let_def)
  moreover have "net_premium_union t B A = map ?f (all_dates [keys B, keys A])"
    by (simp add: net_premium_union_def Let_def)
  ultimately show ?thesis
    using mset_all_dates_swap [of "keys A" "keys B"] by (simp only: mset_map)
qed

lemma filter_swap_call:
  "filter (\<lambda>row. type' row = ''Call'') (map swap_call_put rows)
     = map swap_call_put (filter (\<lambda>row. type' row = ''Put'') rows)"
  by (induction rows) (auto simp: swap_call_put_def)

lemma filter_swap_put:
  "filter (\<lambda>row. type' row = ''Put'') (map swap_call_put rows)
     = map swap_call_put (filter (\<lambda>row. type' row = ''Call'') rows)"
  by (induction rows) (auto simp: swap_call_put_def)

lemma filter_swap_ticker:
  "filter (\<lambda>row. ticker row = t) (map swap_call_put rows)
     = map swap_call_put (filter (\<lambda>row. ticker row = t) rows)"
  by (induction rows) (auto simp: swap_call_put_def)

lemma filter_swap_date:
  "map val (filter (\<lambda>row. date row = d) (map swap_call_put rows))
     = map val (filter (\<lambda>row. date row = d) rows)"
  by (induction rows) (auto simp: swap_call_put_def)

lemma map_date_swap: "map date (map swap_call_put rows) = map date rows"
  by (simp add: swap_call_put_def)

lemma calculate_net_premium_swap:
  fixes df :: "('v::group_add) typed_record list"
  shows "mset (map (\<lambda>r. r\<lparr>val := - val r\<rparr>) (calculate_net_premium df t))
         = mset (calculate_net_premium (map swap_call_put df) t)"
proof -
  let ?td = "filter (\<lambda>row. ticker row = t) df"
  let ?c = "filter (\<lambda>row. type' row = ''Call'') ?td"
  let ?p = "filter (\<lambda>row. type' row = ''Put'') ?td"
  let ?f = "\<lambda>d. \<lparr>date = d, ticker = t,
                  val = sum_list (map val (filter (\<lambda>row. date row = d) ?p))
                        - sum_list (map val (filter (\<lambda>row. date row = d) ?c)),
                  type' = ''Net_Premium''\<rparr>"
  have 1: "map (\<lambda>r. r\<lparr>val := - val r\<rparr>) (calculate_net_premium df t)
             = map ?f (all_dates [map date ?c, map date ?p])"
    by (simp add: calculate_net_premium_def Let_def)
  have 2: "calculate_net_premium (map swap_call_put df) t
             = map ?f (all_dates [map date ?p, map date ?c])"
    unfolding calculate_net_premium_def Let_def
    by (simp only: filter_swap_ticker filter_swap_call filter_swap_put filter_swap_date
        map_date_swap)
  show ?thesis
    unfolding 1 2 using mset_all_dates_swap [of "map date ?c" "map date ?p"]
    by (simp only: mset_map)
qed

section \<open>Properties of the statistics and of fetching\<close>

lemma percentile_mono:
  assumes "a \<le> b"
  shows "percentile xs a \<le> percentile xs b"
proof -
  have "length (filter (\<lambda>v. v \<le> a) xs) \<le> length (filter (\<lambda>v. v \<le> b) xs)"
  proof (induction xs)
    case Nil
    show ?case by simp
  next
    case (Cons x xs)
    then show ?case using assms by auto
  qed
  then have "real (length (filter (\<lambda>v. v \<le> a) xs)) / real (length xs)
           \<le> real (length (filter (\<lambda>v. v \<le> b) xs)) / real (length xs)"
    by (simp add: divide_right_mono)
  then show ?thesis
    unfolding percentile_def by (rule mult_right_mono) simp
qed

lemma percentile_range: "0 \<le> percentile xs a \<and> percentile xs a \<le> 100"
proof -
  have "length (filter (\<lambda>v. v \<le> a) xs) \<le> length xs" by simp
  then have "real (length (filter (\<lambda>v. v \<le> a) xs)) / real (length xs) \<le> 1"
    by (cases "xs = []") (simp_all add: divide_le_eq_1)
  then have "real (length (filter (\<lambda>v. v \<le> a) xs)) / real (length xs) * 100 \<le> 1 * 100"
    by (rule mult_right_mono) simp
  moreover have "0 \<le> real (length (filter (\<lambda>v. v \<le> a) xs)) / real (length xs) * 100"
    by simp
  ultimately show ?thesis
    unfolding percentile_def by simp
qed




lemma window_nth:
  "i < length xs \<Longrightarrow> window w xs i = map (\<lambda>k. xs ! k) [Suc i - w ..< Suc i]"
proof -
  assume i: "i < length xs"
  then have "take (Suc i) xs = map (\<lambda>k. xs ! k) [0 ..< Suc i]"
    by (intro nth_equalityI) (auto simp del: upt_Suc)
  then show ?thesis
    unfolding window_def by (simp only: drop_map drop_upt) simp
qed



lemma try_update_nothing: "delivers_nothing outcome \<Longrightarrow> try_update outcome acc = acc"
  by (induction outcome acc rule: try_update.induct) auto

lemma fetch_combined_multi_nothing:
  "(\<And>n t ty. delivers_nothing (http n t ty)) \<Longrightarrow> fetch_combined_multi http n tickers acc = acc"
  by (induction tickers arbitrary: n acc) (simp_all add: try_update_nothing)

lemma fetch_combined_single_nothing:
  "(\<And>n t ty. delivers_nothing (http n t ty)) \<Longrightarrow> fetch_combined_single http n tickers acc = acc"
proof (induction tickers arbitrary: n acc)
  case Nil
  show ?case by simp
next
  case (Cons t tickers)
  obtain c b s where acc: "acc = (c, b, s)" by (cases acc)
  show ?case unfolding acc using Cons by (simp add: try_update_nothing)
qed

section \<open>Theorems\<close>

text \<open>
  C1. The union with zero fill of two per-date mappings of a ticker (the call
  and the put mapping of the net-premium calculation) has one record per date,
  its dates are exactly the dates of either mapping, and at a date present in
  one mapping only the other side is 0: a date of the call mapping alone gives
  \<open>call_value - 0\<close>, a date of the put mapping alone gives \<open>0 - put_value\<close>. The
  records of the single-security options chart cover the same union of dates,
  each with the call value minus the put value read with default 0.
\<close>

theorem net_premium_union_zero_fill:
  "set (map date (net_premium_union t A B)) = set (keys A) \<union> set (keys B)
   \<and> distinct (map date (net_premium_union t A B))
   \<and> (\<forall>r \<in> set (net_premium_union t A B). \<forall>a.
         map_of A (date r) = Some a \<and> date r \<notin> set (keys B) \<longrightarrow>
           val r = a - 0 \<and> call_value r = a \<and> put_value r = 0)
   \<and> (\<forall>r \<in> set (net_premium_union t A B). \<forall>b.
         map_of B (date r) = Some b \<and> date r \<notin> set (keys A) \<longrightarrow>
           val r = 0 - b \<and> call_value r = 0 \<and> put_value r = b)
   \<and> set (map date (ma_ratio_options_records call_data put_data tk))
       = set (keys (options_records_single call_data tk))
         \<union> set (keys (options_records_single put_data tk))
   \<and> (\<forall>r \<in> set (ma_ratio_options_records call_data put_data tk).
         net_premium r = dict_get (options_records_single call_data tk) (date r) 0
                         - dict_get (options_records_single put_data tk) (date r) 0)"
proof -
  have single: "set (map date (ma_ratio_options_records call_data put_data tk))
       = set (keys (options_records_single call_data tk))
         \<union> set (keys (options_records_single put_data tk))
   \<and> (\<forall>r \<in> set (ma_ratio_options_records call_data put_data tk).
         net_premium r = dict_get (options_records_single call_data tk) (date r) 0
                         - dict_get (options_records_single put_data tk) (date r) 0)"
    by (auto simp: ma_ratio_options_records_def Let_def set_all_dates)
  have none: "map_of D d = None" if "d \<notin> set (keys D)" for D :: "(string, 'a) dict" and d
    using that by (simp add: keys_def map_of_eq_None_iff)
  have multi: "set (map date (net_premium_union t A B)) = set (keys A) \<union> set (keys B)
   \<and> distinct (map date (net_premium_union t A B))
   \<and> (\<forall>r \<in> set (net_premium_union t A B). \<forall>a.
         map_of A (date r) = Some a \<and> date r \<notin> set (keys B) \<longrightarrow>
           val r = a - 0 \<and> call_value r = a \<and> put_value r = 0)
   \<and> (\<forall>r \<in> set (net_premium_union t A B). \<forall>b.
         map_of B (date r) = Some b \<and> date r \<notin> set (keys A) \<longrightarrow>
           val r = 0 - b \<and> call_value r = 0 \<and> put_value r = b)"
    unfolding date_net_premium_union
    by (auto simp: set_all_dates distinct_all_dates net_premium_union_def Let_def dict_get_def none)
  show ?thesis
    using multi single by blast
qed

theorem net_premium_union_zero_fill_witness:
  "set (map date (net_premium_union ''AAPL'' [(''2024-01-01'', 5::int)] [(''2024-01-02'', 3)]))
     = {''2024-01-01'', ''2024-01-02''}
   \<and> \<lparr>date = ''2024-01-01'', ticker = ''AAPL'', val = 5 - 0, call_value = 5, put_value = 0\<rparr>
       \<in> set (net_premium_union ''AAPL'' [(''2024-01-01'', 5::int)] [(''2024-01-02'', 3)])
   \<and> map_of [(''2024-01-01'', 5::int)] ''2024-01-01'' = Some 5
   \<and> ''2024-01-01'' \<notin> set (keys [(''2024-01-02'', 3::int)])"
  using net_premium_union_zero_fill
    [of "''AAPL''" "[(''2024-01-01'', 5::int)]" "[(''2024-01-02'', 3)]"]
  by (simp add: net_premium_union_def all_dates_def keys_def dict_get_def Let_def)

text \<open>
  C2. The records of the combined-flow calculation are exactly one value per
  ticker of the list and per date that occurs in at least one of the five
  mappings extracted for that ticker, and the value is
  \<open>retail + (small_call - small_put) + (large_call - large_put)\<close>, each read with
  default 0, in this order of operations. The same holds for the records of
  the single-security chart, with its own extraction of the five mappings. The
  value type is arbitrary: no law of arithmetic is used.
\<close>

theorem combined_flow_additive:
  "set (calculate_combined_flow_multi rf sc sp lc lp ts) =
    {\<lparr>date = d, ticker = t,
       val = dict_get (retail_records_multi rf t) d 0
             + (dict_get (options_records_multi sc t) d 0 - dict_get (options_records_multi sp t) d 0)
             + (dict_get (options_records_multi lc t) d 0 - dict_get (options_records_multi lp t) d 0)\<rparr>
     | t d. t \<in> set ts \<and>
        d \<in> set (keys (retail_records_multi rf t))
            \<union> set (keys (options_records_multi sc t)) \<union> set (keys (options_records_multi sp t))
            \<union> set (keys (options_records_multi lc t)) \<union> set (keys (options_records_multi lp t))}
   \<and> set (display_combined_flow_chart rf sc sp lc lp t') =
    {\<lparr>date = d,
       combined_flow = dict_get (retail_records_single rf t') d 0
             + (dict_get (options_records_single sc t') d 0 - dict_get (options_records_single sp t') d 0)
             + (dict_get (options_records_single lc t') d 0 - dict_get (options_records_single lp t') d 0),
       retail_flow = dict_get (retail_records_single rf t') d 0,
       small_net = dict_get (options_records_single sc t') d 0 - dict_get (options_records_single sp t') d 0,
       large_net = dict_get (options_records_single lc t') d 0 - dict_get (options_records_single lp t') d 0\<rparr>
     | d. d \<in> set (keys (retail_records_single rf t'))
            \<union> set (keys (options_records_single sc t')) \<union> set (keys (options_records_single sp t'))
            \<union> set (keys (options_records_single lc t')) \<union> set (keys (options_records_single lp t'))}"
proof
  show "set (calculate_combined_flow_multi rf sc sp lc lp ts) =
    {\<lparr>date = d, ticker = t,
       val = dict_get (retail_records_multi rf t) d 0
             + (dict_get (options_records_multi sc t) d 0 - dict_get (options_records_multi sp t) d 0)
             + (dict_get (options_records_multi lc t) d 0 - dict_get (options_records_multi lp t) d 0)\<rparr>
     | t d. t \<in> set ts \<and>
        d \<in> set (keys (retail_records_multi rf t))
            \<union> set (keys (options_records_multi sc t)) \<union> set (keys (options_records_multi sp t))
            \<union> set (keys (options_records_multi lc t)) \<union> set (keys (options_records_multi lp t))}"
    unfolding calculate_combined_flow_multi_def set_concat set_map
    by (auto simp: set_combined_flow_multi_ticker)
qed (rule set_display_combined_flow_chart)

theorem combined_flow_additive_witness:
  "set (calculate_combined_flow_multi
     [(''AAPL'', Date_Values [(''2024-01-01'', 100::int), (''2024-01-02'', - 50)])]
     [(''AAPL'', Date_Values [(''2024-01-02'', 30)])] [] []
     [(''AAPL'', Date_Values [(''2024-01-01'', 20)])] [''AAPL''])
   = {\<lparr>date = ''2024-01-01'', ticker = ''AAPL'', val = 80\<rparr>,
      \<lparr>date = ''2024-01-02'', ticker = ''AAPL'', val = - 20\<rparr>}"
  using combined_flow_additive [THEN conjunct1, of
     "[(''AAPL'', Date_Values [(''2024-01-01'', 100::int), (''2024-01-02'', - 50)])]"
     "[(''AAPL'', Date_Values [(''2024-01-02'', 30)])]" "[]" "[]"
     "[(''AAPL'', Date_Values [(''2024-01-01'', 20)])]" "[''AAPL'']"]
  by (simp add: calculate_combined_flow_multi_def combined_flow_multi_ticker_def
      retail_records_multi_def options_records_multi_def retail_match_multi_def
      options_match_multi_def aggregate_def aggregate_step_def add_values_def add_value_def
      base_ticker_def upper_def upper_char_def endswith_def
      all_dates_def keys_def dict_get_def Let_def insert_commute)

text \<open>
  C7. Swapping the call and the put mapping given to the net-premium
  calculation yields, as a multiset, the same records with \<open>val\<close> negated and
  \<open>call_value\<close> and \<open>put_value\<close> exchanged; dates and tickers are unchanged. The
  single-security calculation, which reads calls and puts from one frame,
  negates every value when the call and put rows of the frame are exchanged.
\<close>

theorem net_premium_antisymmetry:
  fixes call_data put_data :: "('v::group_add) named_series"
    and df :: "'v typed_record list"
  shows "mset (map (\<lambda>r. r\<lparr>val := - val r, call_value := put_value r, put_value := call_value r\<rparr>)
                 (calculate_net_premium_multi call_data put_data ticker_list))
         = mset (calculate_net_premium_multi put_data call_data ticker_list)
       \<and> mset (map (\<lambda>r. r\<lparr>val := - val r\<rparr>) (calculate_net_premium df t))
         = mset (calculate_net_premium (map swap_call_put df) t)"
proof
  show "mset (map (\<lambda>r. r\<lparr>val := - val r, call_value := put_value r, put_value := call_value r\<rparr>)
                 (calculate_net_premium_multi call_data put_data ticker_list))
         = mset (calculate_net_premium_multi put_data call_data ticker_list)"
    unfolding calculate_net_premium_multi_def
  proof (induction ticker_list)
    case Nil
    show ?case by simp
  next
    case (Cons t ts)
    show ?case
      using Cons.IH net_premium_union_swap
        [of t "options_records_multi call_data t" "options_records_multi put_data t"]
      by (simp only: list.map concat.simps map_append mset_append)
  qed
  show "mset (map (\<lambda>r. r\<lparr>val := - val r\<rparr>) (calculate_net_premium df t))
         = mset (calculate_net_premium (map swap_call_put df) t)"
    by (rule calculate_net_premium_swap)
qed

text \<open>
  C4 (amended). The momentum label is Strong Downtrend exactly for r < 0.5,
  Downtrend exactly for 0.5 \<le> r < 1.0, Uptrend exactly for 1.0 \<le> r \<le> 1.5 and
  Strong Uptrend exactly for r > 1.5 (Strong Down and Strong Up in the multi
  security tables); r = 1.5 and r = 1.0 are Uptrend and r = 0.5 is Downtrend.
\<close>

theorem ma_ratio_signal_bands:
  "(fst (ma_ratio_signal r) = ''Strong Downtrend'') = (r < 0.5)
   \<and> (fst (ma_ratio_signal r) = ''Downtrend'') = (0.5 \<le> r \<and> r < 1.0)
   \<and> (fst (ma_ratio_signal r) = ''Uptrend'') = (1.0 \<le> r \<and> r \<le> 1.5)
   \<and> (fst (ma_ratio_signal r) = ''Strong Uptrend'') = (r > 1.5)
   \<and> (ma_signal r = ''Strong Down'') = (r < 0.5)
   \<and> (ma_signal r = ''Downtrend'') = (0.5 \<le> r \<and> r < 1.0)
   \<and> (ma_signal r = ''Uptrend'') = (1.0 \<le> r \<and> r \<le> 1.5)
   \<and> (ma_signal r = ''Strong Up'') = (r > 1.5)
   \<and> fst (ma_ratio_signal 1.5) = ''Uptrend''
   \<and> fst (ma_ratio_signal 1.0) = ''Uptrend''
   \<and> fst (ma_ratio_signal 0.5) = ''Downtrend''"
  by (simp add: ma_ratio_signal_def ma_signal_def)

text \<open>
  The comparison with 1.5 is strict: the ratio 1.5 is labelled Uptrend.
\<close>

theorem ma_ratio_signal_boundary_counterexample:
  "fst (ma_ratio_signal 1.5) = ''Uptrend'' \<and> fst (ma_ratio_signal 1.5) \<noteq> ''Strong Uptrend''
   \<and> ma_signal 1.5 = ''Uptrend''"
  by (simp add: ma_ratio_signal_def ma_signal_def)

text \<open>
  C8 (amended). A key that contains the target as a substring, ignoring case,
  is a match exactly on the paths that test for a substring: the retail
  extraction of the single-security combined-flow, MA-ratio retail and MA-ratio
  combined charts, and the options extraction of the single-security Z-score
  comparison chart. The retail extraction of \<^verbatim>\<open>calculate_combined_flow_multi\<close> and
  of the single-security Z-score comparison chart matches exactly the keys equal
  to the target, ignoring case. The options extraction of the single-security
  combined-flow and MA-ratio charts matches exactly the keys whose part after
  the last underscore is the target, ignoring case, and the multi-security
  options extraction matches at least those keys. The key OTM_small_AAPL
  matches AAPL on every options path and on the three substring retail paths,
  and on neither whole-key retail path.
\<close>

theorem ticker_matching_paths:
  "retail_match_single k t = (\<exists>a b. upper k = a @ upper t @ b)
   \<and> options_match_z_score_comparison k t = (\<exists>a b. upper k = a @ upper t @ b)
   \<and> retail_match_multi k t = (upper k = upper t)
   \<and> retail_match_z_score_comparison k t = (upper k = upper t)
   \<and> options_match_single k t = (upper (base_ticker k) = upper t)
   \<and> (options_match_single k t \<longrightarrow> options_match_multi k t)
   \<and> (CHR ''_'' \<notin> set s \<and> upper s = upper t \<longrightarrow>
        base_ticker (p @ ''_'' @ s) = s
        \<and> options_match_multi (p @ ''_'' @ s) t \<and> options_match_single (p @ ''_'' @ s) t)
   \<and> retail_match_single ''OTM_small_AAPL'' ''AAPL''
   \<and> options_match_multi ''OTM_small_AAPL'' ''AAPL''
   \<and> options_match_single ''OTM_small_AAPL'' ''AAPL''
   \<and> options_match_z_score_comparison ''OTM_small_AAPL'' ''AAPL''
   \<and> \<not> retail_match_multi ''OTM_small_AAPL'' ''AAPL''
   \<and> \<not> retail_match_z_score_comparison ''OTM_small_AAPL'' ''AAPL''"
proof -
  have sub: "str_in (upper t) (upper k) = (\<exists>a b. upper k = a @ upper t @ b)"
    by (rule str_in_iff)
  have "upper t = upper k \<Longrightarrow> upper k = [] @ upper t @ []"
    by simp
  then have eq: "upper t = upper k \<Longrightarrow> \<exists>a b. upper k = a @ upper t @ b"
    by blast
  have 1: "retail_match_single k t = (\<exists>a b. upper k = a @ upper t @ b)"
    unfolding retail_match_single_def sub using eq by blast
  have 2: "options_match_z_score_comparison k t = (\<exists>a b. upper k = a @ upper t @ b)"
    unfolding options_match_z_score_comparison_def by (rule sub)
  have 3: "retail_match_multi k t = (upper k = upper t)"
    by (simp add: retail_match_multi_def)
  have 4: "retail_match_z_score_comparison k t = (upper k = upper t)"
    by (simp add: retail_match_z_score_comparison_def)
  have 5: "options_match_single k t = (upper (base_ticker k) = upper t)"
    by (simp add: options_match_single_def)
  have 8: "options_match_single k t \<longrightarrow> options_match_multi k t"
    by (simp add: options_match_single_def options_match_multi_def)
  have 6: "base_ticker (p @ ''_'' @ s) = s
        \<and> options_match_multi (p @ ''_'' @ s) t \<and> options_match_single (p @ ''_'' @ s) t"
    if "CHR ''_'' \<notin> set s" "upper s = upper t"
  proof -
    have b: "base_ticker (p @ ''_'' @ s) = s" using that(1) by (rule base_ticker_suffix)
    then show ?thesis
      using that(2) by (simp add: options_match_multi_def options_match_single_def)
  qed
  have 7: "retail_match_single ''OTM_small_AAPL'' ''AAPL''
   \<and> options_match_multi ''OTM_small_AAPL'' ''AAPL''
   \<and> options_match_single ''OTM_small_AAPL'' ''AAPL''
   \<and> options_match_z_score_comparison ''OTM_small_AAPL'' ''AAPL''
   \<and> \<not> retail_match_multi ''OTM_small_AAPL'' ''AAPL''
   \<and> \<not> retail_match_z_score_comparison ''OTM_small_AAPL'' ''AAPL''"
    by (simp add: retail_match_single_def options_match_multi_def options_match_single_def
      options_match_z_score_comparison_def retail_match_multi_def
      retail_match_z_score_comparison_def base_ticker_def upper_def upper_char_def endswith_def)
  show ?thesis using 1 2 3 4 5 6 7 8 by blast
qed

theorem ticker_matching_paths_witness:
  "CHR ''_'' \<notin> set ''aapl'' \<and> upper ''aapl'' = upper ''AAPL''
   \<and> base_ticker (''otm_small'' @ ''_'' @ ''aapl'') = ''aapl''
   \<and> options_match_multi (''otm_small'' @ ''_'' @ ''aapl'') ''AAPL''
   \<and> options_match_single (''otm_small'' @ ''_'' @ ''aapl'') ''AAPL''
   \<and> upper ''otm_small_aapl'' = ''OTM_SMALL_'' @ upper ''AAPL'' @ []
   \<and> retail_match_single ''otm_small_aapl'' ''AAPL''
   \<and> options_match_z_score_comparison ''otm_small_aapl'' ''AAPL''
   \<and> options_match_single ''otm_small_aapl'' ''AAPL''
   \<and> options_match_multi ''otm_small_aapl'' ''AAPL''"
proof -
  have b: "upper (base_ticker ''otm_small_aapl'') = upper ''AAPL''"
    by (simp add: base_ticker_def upper_def upper_char_def)
  have h: "CHR ''_'' \<notin> set ''aapl'' \<and> upper ''aapl'' = upper ''AAPL''"
    by (simp add: upper_def upper_char_def)
  have d: "upper ''otm_small_aapl'' = ''OTM_SMALL_'' @ upper ''AAPL'' @ []"
    by (simp add: upper_def upper_char_def)
  then have e: "\<exists>a b. upper ''otm_small_aapl'' = a @ upper ''AAPL'' @ b"
    by blast
  show ?thesis
    using h d e b
      ticker_matching_paths [of "''otm_small_aapl''" "''AAPL''" "''aapl''" "''otm_small''"]
    by blast
qed

text \<open>
  The substring rule is not applied on every path. OTM_small_AAPL contains
  AAPL and is no match on the retail path of \<^verbatim>\<open>calculate_combined_flow_multi\<close> nor
  on the retail path of the single-security Z-score comparison chart. AAPLX
  contains AAPL and is no match on the multi-security options paths nor on the
  options paths of the single-security combined-flow and MA-ratio charts.
\<close>

theorem substring_rule_counterexample:
  "str_in (upper ''AAPL'') (upper ''OTM_small_AAPL'')
   \<and> \<not> retail_match_multi ''OTM_small_AAPL'' ''AAPL''
   \<and> \<not> retail_match_z_score_comparison ''OTM_small_AAPL'' ''AAPL''
   \<and> str_in (upper ''AAPL'') (upper ''AAPLX'')
   \<and> \<not> options_match_multi ''AAPLX'' ''AAPL''
   \<and> \<not> options_match_single ''AAPLX'' ''AAPL''"
  by (simp add: retail_match_multi_def retail_match_z_score_comparison_def
      options_match_multi_def options_match_single_def
      base_ticker_def upper_def upper_char_def endswith_def)

text \<open>
  C5. For every real Z-score the activity label is Extreme Light exactly below
  -1.5, Light exactly on [-1.5, -0.5), Neutral exactly on [-0.5, 0.5), Elevated
  exactly on [0.5, 1.5) and Crowded exactly from 1.5 upwards; a Z-score equal to a
  boundary falls in the higher band, so -1.5 is Light and 1.5 is Crowded.
\<close>

theorem classify_activity_level_bands:
  "(fst (classify_activity_level z) = ''Extreme Light'') = (z < - 1.5)
   \<and> (fst (classify_activity_level z) = ''Light'') = (- 1.5 \<le> z \<and> z < - 0.5)
   \<and> (fst (classify_activity_level z) = ''Neutral'') = (- 0.5 \<le> z \<and> z < 0.5)
   \<and> (fst (classify_activity_level z) = ''Elevated'') = (0.5 \<le> z \<and> z < 1.5)
   \<and> (fst (classify_activity_level z) = ''Crowded'') = (1.5 \<le> z)
   \<and> fst (classify_activity_level (- 1.5)) = ''Light''
   \<and> fst (classify_activity_level 1.5) = ''Crowded''"
  by (simp add: classify_activity_level_def)

text \<open>
  C9. On a non-empty series sorted in ascending order, the percentile of the
  element at index i, 100 times the fraction of values less than or equal to
  it, does not decrease with i and lies between 0 and 100.
\<close>

theorem percentile_sorted_monotone:
  assumes "xs \<noteq> []" and "sorted xs" and "i \<le> j" and "j < length xs"
  shows "percentile xs (xs ! i) \<le> percentile xs (xs ! j)
         \<and> 0 \<le> percentile xs (xs ! i) \<and> percentile xs (xs ! i) \<le> 100"
proof -
  have "xs ! i \<le> xs ! j" using assms(2-4) by (simp add: sorted_nth_mono)
  then show ?thesis using percentile_mono percentile_range by blast
qed

theorem percentile_sorted_monotone_witness:
  "[1, 2, 2, 5 :: real] \<noteq> [] \<and> sorted [1, 2, 2, 5 :: real] \<and> (1::nat) \<le> 3
   \<and> 3 < length [1, 2, 2, 5 :: real]
   \<and> percentile [1, 2, 2, 5] ([1, 2, 2, 5] ! 1) = 75
   \<and> percentile [1, 2, 2, 5] ([1, 2, 2, 5] ! 3) = 100
   \<and> percentile [1, 2, 2, 5] ([1, 2, 2, 5] ! 1) \<le> percentile [1, 2, 2, 5] ([1, 2, 2, 5] ! 3)"
  using percentile_sorted_monotone [of "[1, 2, 2, 5]" 1 3]
  by (simp add: percentile_def)



text \<open>
  C10. With a token configured, \<^verbatim>\<open>fetch_stock_flow_data\<close> with transaction type
  combined returns the status success whatever the requests do, in both
  analyzers; when every request raises, is not status 200, has no JSON body or
  has an empty one, the result is the empty mappings with status success, the
  same as for a run whose requests all succeed with empty bodies.
\<close>

theorem fetch_stock_flow_data_status:
  "\<not> falsy token \<longrightarrow>
     snd (fetch_stock_flow_data_multi token http tickers ''combined'') = ''success''
     \<and> snd (fetch_stock_flow_data_single token http tickers ''combined'') = ''success''
     \<and> ((\<forall>n t ty. delivers_nothing (http n t ty)) \<longrightarrow>
          fetch_stock_flow_data_multi token http tickers ''combined''
            = ([(''combined_data'', [])], ''success'')
          \<and> fetch_stock_flow_data_single token http tickers ''combined''
            = (Named [(''combined_data'', []), (''buy_data'', []), (''sell_data'', [])],
               ''success''))"
proof (intro impI conjI)
  assume t: "\<not> falsy token"
  show "snd (fetch_stock_flow_data_multi token http tickers ''combined'') = ''success''"
    using t by (simp add: fetch_stock_flow_data_multi_def)
  show "snd (fetch_stock_flow_data_single token http tickers ''combined'') = ''success''"
    using t by (simp add: fetch_stock_flow_data_single_def split: prod.splits)
next
  assume t: "\<not> falsy token" and n: "\<forall>n t ty. delivers_nothing (http n t ty)"
  show "fetch_stock_flow_data_multi token http tickers ''combined''
            = ([(''combined_data'', [])], ''success'')"
    using t n by (simp add: fetch_stock_flow_data_multi_def fetch_combined_multi_nothing)
next
  assume t: "\<not> falsy token" and n: "\<forall>n t ty. delivers_nothing (http n t ty)"
  show "fetch_stock_flow_data_single token http tickers ''combined''
            = (Named [(''combined_data'', []), (''buy_data'', []), (''sell_data'', [])],
               ''success'')"
    using t n by (simp add: fetch_stock_flow_data_single_def fetch_combined_single_nothing)
qed

theorem fetch_stock_flow_data_status_witness:
  "\<not> falsy (Some ''token'')
   \<and> (\<forall>n t ty. delivers_nothing ((\<lambda>n t ty. Request_Raises :: int http_outcome) n t ty))
   \<and> fetch_stock_flow_data_multi (Some ''token'') (\<lambda>n t ty. Request_Raises :: int http_outcome)
        [''AAPL'', ''MSFT''] ''combined'' = ([(''combined_data'', [])], ''success'')
   \<and> fetch_stock_flow_data_multi (Some ''token'')
        (\<lambda>n t ty. Response 200 (Json [(t, Date_Values [(''2024-01-02'', 7::int)])]))
        [''AAPL''] ''combined''
      = ([(''combined_data'', [(''AAPL'', Date_Values [(''2024-01-02'', 7)])])], ''success'')"
  using fetch_stock_flow_data_status
    [of "Some ''token''" "\<lambda>n t ty. Request_Raises :: int http_outcome" "[''AAPL'', ''MSFT'']"]
  by (simp add: fetch_stock_flow_data_multi_def dict_update_def)

end
